theory Spec2Isabelle
  imports Main "HOL-Library.Word" "HOL-Library.Sublist" "HOL-Library.Multiset" "HOL-Library.AList"
begin

section \<open>JavaScript strings and values\<close>

text \<open>
  A JavaScript string is a sequence of UTF-16 code units; \<open>length\<close>, \<open>substring\<close>,
  \<open>includes\<close> and \<open>===\<close> all work on code units. String literals of \<^verbatim>\<open>app.js\<close> that are
  plain ASCII are written through \<open>ascii\<close>.
\<close>

type_synonym jsstring = "16 word list"

definition ascii :: "string \<Rightarrow> jsstring" where
  "ascii s = map of_char s"

text \<open>\<^verbatim>\<open>s.includes(t)\<close>: \<open>t\<close> occurs in \<open>s\<close> as a contiguous run of code units.\<close>

fun includes_str :: "jsstring \<Rightarrow> jsstring \<Rightarrow> bool" where
  "includes_str [] t = (t = [])"
| "includes_str (c # cs) t = (prefix t (c # cs) \<or> includes_str cs t)"

text \<open>\<^verbatim>\<open>s.replace(/_/g, ' ')\<close>: every underscore becomes a space.\<close>

definition replace_underscores :: "jsstring \<Rightarrow> jsstring" where
  "replace_underscores s = map (\<lambda>c. if c = 0x5F then 0x20 else c) s"

text \<open>
  \<^verbatim>\<open>s.replace(pat, rep)\<close> with a string pattern: only the first occurrence of \<open>pat\<close>,
  wherever it starts, is replaced. (The replacement strings of \<^verbatim>\<open>app.js\<close> are empty, so
  the \<^verbatim>\<open>$\<close> patterns of the replacement text play no role.)
\<close>

fun replace_first :: "jsstring \<Rightarrow> jsstring \<Rightarrow> jsstring \<Rightarrow> jsstring" where
  "replace_first pat rep [] = (if pat = [] then rep else [])"
| "replace_first pat rep (c # cs) =
     (if prefix pat (c # cs) then rep @ drop (length pat) (c # cs)
      else c # replace_first pat rep cs)"

text \<open>\<^verbatim>\<open>i.split('_').pop()\<close>: the segment after the last underscore.\<close>

definition last_segment :: "jsstring \<Rightarrow> jsstring" where
  "last_segment s = rev (takeWhile (\<lambda>c. c \<noteq> 0x5F) (rev s))"

text \<open>
  The values a JSON document can put in a scalar field. Numbers are the integers (JSON has
  no NaN, and the only falsy number is zero).
\<close>

datatype jsval = JUndefined | JNull | JBool bool | JNum int | JStr jsstring

fun truthy :: "jsval \<Rightarrow> bool" where
  "truthy JUndefined = False"
| "truthy JNull = False"
| "truthy (JBool b) = b"
| "truthy (JNum n) = (n \<noteq> 0)"
| "truthy (JStr s) = (s \<noteq> [])"

text \<open>\<^verbatim>\<open>a || b\<close>\<close>

definition js_or :: "jsval \<Rightarrow> jsval \<Rightarrow> jsval" where
  "js_or a b = (if truthy a then a else b)"

section \<open>Objects\<close>

text \<open>
  An object is the list of its own properties in creation order. \<open>obj_ok\<close> is the
  representation invariant: no key twice. \<open>Object.keys\<close>, \<open>Object.entries\<close> and the
  spread operator enumerate array-index keys first, in ascending numeric order, and then
  the other keys in creation order.
\<close>

type_synonym 'v jsobj = "(jsstring \<times> 'v) list"

definition obj_ok :: "'v jsobj \<Rightarrow> bool" where
  "obj_ok obj = distinct (map fst obj)"

definition is_digit :: "16 word \<Rightarrow> bool" where
  "is_digit c = (0x30 \<le> c \<and> c \<le> 0x39)"

definition digits_value :: "jsstring \<Rightarrow> int" where
  "digits_value s = foldl (\<lambda>a c. 10 * a + (uint c - 48)) 0 s"

text \<open>An array index is a canonical decimal numeral below \<open>2^32 - 1\<close>.\<close>

definition is_array_index :: "jsstring \<Rightarrow> bool" where
  "is_array_index k =
     (k \<noteq> [] \<and> list_all is_digit k \<and> (k = [0x30] \<or> 0x30 < hd k) \<and> digits_value k < 4294967295)"

definition Object_entries :: "'v jsobj \<Rightarrow> (jsstring \<times> 'v) list" where
  "Object_entries obj =
     sort_key (\<lambda>e. digits_value (fst e)) (filter (\<lambda>e. is_array_index (fst e)) obj)
     @ filter (\<lambda>e. \<not> is_array_index (fst e)) obj"

definition Object_keys :: "'v jsobj \<Rightarrow> jsstring list" where
  "Object_keys obj = map fst (Object_entries obj)"

text \<open>
  \<^verbatim>\<open>{...a}\<close> copies the own properties of \<open>a\<close> into the object under construction: an
  existing key keeps its place and takes the new value, a new key is appended. Spreading
  \<^verbatim>\<open>undefined\<close> or \<^verbatim>\<open>null\<close> copies nothing.
\<close>

definition spread_into :: "'v jsobj option \<Rightarrow> 'v jsobj \<Rightarrow> 'v jsobj" where
  "spread_into src tgt =
     (case src of
        None \<Rightarrow> tgt
      | Some s \<Rightarrow> fold (\<lambda>e t. AList.update (fst e) (snd e) t) (Object_entries s) tgt)"

section \<open>The boundary geometry and its filter in \<^verbatim>\<open>initMap\<close>\<close>

text \<open>
  A feature carries \<^verbatim>\<open>properties.name\<close> (absent, or a string) and
  \<^verbatim>\<open>properties.adcode\<close> (absent, or a number); its shape is opaque. \<open>features\<close> may
  be absent from the document, in which case \<^verbatim>\<open>initMap\<close> leaves it alone. The
  comparison \<^verbatim>\<open>adcode == 710000\<close> is between numbers here; a code written as a string,
  which \<^verbatim>\<open>==\<close> would first convert to a number, is not part of the model.
\<close>

record properties =
  name :: "jsstring option"
  adcode :: "int option"

record 'g feature =
  properties :: properties
  geometry :: 'g

record 'g geojson =
  features :: "'g feature list option"

text \<open>The two name markers: U+53F0 U+6E7E, and the ASCII word.\<close>

definition marker_zh :: jsstring where
  "marker_zh = [0x53F0, 0x6E7E]"

definition marker_en :: jsstring where
  "marker_en = ascii ''Taiwan''"

text \<open>\<^verbatim>\<open>f.properties.name || ""\<close>\<close>

definition name_or_empty :: "'g feature \<Rightarrow> jsstring" where
  "name_or_empty f = (case name (properties f) of None \<Rightarrow> [] | Some s \<Rightarrow> s)"

text \<open>The callback given to \<^verbatim>\<open>geoJson.features.filter\<close>.\<close>

definition feature_filter :: "'g feature \<Rightarrow> bool" where
  "feature_filter f =
     (let name = name_or_empty f; adcode = adcode (properties f)
      in if includes_str name marker_zh \<or> includes_str name marker_en \<or> adcode = Some 710000
         then False
         else if name = [] then False
         else True)"

definition initMap_filter :: "'g geojson \<Rightarrow> 'g geojson" where
  "initMap_filter geoJson =
     (case features geoJson of
        None \<Rightarrow> geoJson
      | Some fs \<Rightarrow> geoJson\<lparr>features := Some (filter feature_filter fs)\<rparr>)"

section \<open>The policy dataset\<close>

text \<open>
  One \<^verbatim>\<open>{value, evidence}\<close> pair of a record's \<^verbatim>\<open>targets\<close>, \<^verbatim>\<open>subsidies\<close>,
  \<^verbatim>\<open>taxes\<close> or \<^verbatim>\<open>rd\<close> object. A property of these objects may also hold
  \<^verbatim>\<open>null\<close> instead of a pair: that is \<open>None\<close>. Three fields of the source carry
  another name here because theirs is taken: \<^verbatim>\<open>value\<close> is \<open>entry_value\<close>, \<^verbatim>\<open>id\<close> is
  \<open>policy_id\<close> and \<^verbatim>\<open>count\<close> is \<open>count_stat\<close>.
\<close>

record entry =
  entry_value :: jsval
  evidence :: jsval

text \<open>
  A record of \<^verbatim>\<open>data.policies\<close>. The four objects and \<^verbatim>\<open>other\<close> may be absent.
  \<^verbatim>\<open>id\<close> is a string: the table hands it to \<^verbatim>\<open>openModal\<close> inside a quoted
  attribute.
\<close>

record policy =
  policy_id :: jsstring
  title :: jsstring
  province :: jsstring
  year :: jsval
  instruments :: "jsstring list"
  targets :: "entry option jsobj option"
  subsidies :: "entry option jsobj option"
  taxes :: "entry option jsobj option"
  rd :: "entry option jsobj option"
  other :: "jsstring list option"

record province_stats =
  count_stat :: int
  subsidy_intensity :: int

record dataset_summary =
  total_policies :: int
  top_instrument :: jsstring

text \<open>
  The document \<^verbatim>\<open>data/data.json\<close>, without its \<^verbatim>\<open>timeline\<close> (which only feeds the
  line chart).
\<close>

record dataset =
  summary :: dataset_summary
  provinces :: "province_stats jsobj"
  global_instruments :: "int jsobj"
  policies :: "policy list"

section \<open>The page\<close>

text \<open>
  What the functions of \<^verbatim>\<open>app.js\<close> write: the three KPI slots, the heading and the body
  of the table, the four parts of the modal and the \<^verbatim>\<open>hidden\<close> class of its overlay;
  and the two globals they share, \<^verbatim>\<open>globalPolicies\<close> and \<^verbatim>\<open>instChart\<close>. Markup is
  kept as structure: a table row is the values interpolated into its template, a block of
  the modal is the list of its items or the fallback paragraph. The values go into the
  template as they are, without escaping; the title cell is therefore also given as the
  text that \<^verbatim>\<open>renderTable\<close> hands to \<^verbatim>\<open>innerHTML\<close> (\<open>title_td\<close> below).
\<close>

record row =
  row_onclick :: jsstring
  title_attr :: jsstring
  title_text :: jsstring
  province_cell :: jsstring
  year_cell :: jsval
  tag_spans :: "jsstring list"

datatype tbody = NoPoliciesFound | Rows "row list"

record target_item =
  target_label :: jsstring
  target_value :: jsval
  target_unit :: jsstring
  target_evidence :: "jsval option"

record finance_item =
  finance_label :: jsstring
  finance_value :: jsval
  finance_evidence :: "jsval option"

datatype 'a block = Fallback jsstring | Items "'a list"

record chart_data =
  labels :: "jsstring list"
  rawKeys :: "jsstring list"
  counts :: "int list"

record app =
  globalPolicies :: "policy list"
  instChart :: chart_data
  kpi_total :: int
  kpi_top_inst :: jsstring
  kpi_provinces :: nat
  tableTitle :: jsstring
  policy_tbody :: tbody
  modal_title :: jsstring
  modal_targets :: "target_item block"
  modal_subsidies :: "finance_item block"
  modal_instruments :: "jsstring block"
  modal_overlay_hidden :: bool

datatype error = TypeError

section \<open>\<^verbatim>\<open>renderKPIs\<close>\<close>

definition renderKPIs :: "dataset \<Rightarrow> app \<Rightarrow> app" where
  "renderKPIs data st =
     st\<lparr>kpi_total := total_policies (summary data),
        kpi_top_inst := replace_underscores (top_instrument (summary data)),
        kpi_provinces := length (Object_keys (provinces data))\<rparr>"

section \<open>\<^verbatim>\<open>renderTable\<close> and the two filters\<close>

text \<open>The title cell: \<^verbatim>\<open>p.title.length > 35 ? p.title.substring(0, 35) + '...' : p.title\<close>\<close>

definition title_cell :: "jsstring \<Rightarrow> jsstring" where
  "title_cell t = (if length t > 35 then take 35 t @ ascii ''...'' else t)"

definition table_row :: "policy \<Rightarrow> row" where
  "table_row p =
     \<lparr>row_onclick = policy_id p,
      title_attr = title p,
      title_text = title_cell (title p),
      province_cell = province p,
      year_cell = js_or (year p) (JStr (ascii ''-'')),
      tag_spans = map last_segment (take 2 (instruments p))\<rparr>"

text \<open>
  The second line of the row template, as text:
  \<^verbatim>\<open><td title="${p.title}">${p.title.length > 35 ? ... : p.title}</td>\<close>.
  The double quote is the code unit \<open>0x22\<close>.
\<close>

definition title_td :: "policy \<Rightarrow> jsstring" where
  "title_td p =
     ascii ''<td title='' @ [0x22] @ title p @ [0x22] @ ascii ''>''
     @ title_cell (title p) @ ascii ''</td>''"

text \<open>
  What the page gets as the \<^verbatim>\<open>title\<close> attribute of that cell once the markup is parsed:
  the value of a double-quoted attribute runs from the opening quote, the eleventh code
  unit of the cell, to the next double quote. (Character references, which a parser
  would also decode, are left aside.)
\<close>

definition title_attribute_of :: "jsstring \<Rightarrow> jsstring" where
  "title_attribute_of td = takeWhile (\<lambda>c. c \<noteq> 0x22) (drop 11 td)"

definition renderTable :: "policy list \<Rightarrow> app \<Rightarrow> app" where
  "renderTable ps st =
     (if length ps = 0 then st\<lparr>policy_tbody := NoPoliciesFound\<rparr>
      else st\<lparr>policy_tbody := Rows (map table_row ps)\<rparr>)"

definition filterTableByInstrument :: "jsstring \<Rightarrow> app \<Rightarrow> app" where
  "filterTableByInstrument instrumentKey st =
     (let st1 = st\<lparr>tableTitle := ascii ''Policies using: '' @ replace_underscores instrumentKey\<rparr>;
          filtered = filter (\<lambda>p. instrumentKey \<in> set (instruments p)) (globalPolicies st1)
      in renderTable filtered st1)"

definition filterTableByProvince :: "jsstring \<Rightarrow> app \<Rightarrow> app" where
  "filterTableByProvince provinceName st =
     (let st1 = st\<lparr>tableTitle := ascii ''Policies in: '' @ provinceName\<rparr>;
          filtered = filter (\<lambda>p. province p = provinceName) (globalPolicies st1)
      in renderTable filtered st1)"

text \<open>The click handler of the map: a click that names a region filters by it.\<close>

definition map_onClick :: "jsstring \<Rightarrow> app \<Rightarrow> app" where
  "map_onClick params_name st =
     (if params_name \<noteq> [] then filterTableByProvince params_name st else st)"

section \<open>\<^verbatim>\<open>initCharts\<close>: the instrument chart\<close>

text \<open>
  \<^verbatim>\<open>Array.prototype.sort\<close> with a comparison function is a stable sort: an element goes
  before the first element it does not compare greater than. The comparison function of
  \<^verbatim>\<open>initCharts\<close> is \<^verbatim>\<open>(a, b) => b[1] - a[1]\<close>.
\<close>

fun insert_by :: "('a \<Rightarrow> 'a \<Rightarrow> int) \<Rightarrow> 'a \<Rightarrow> 'a list \<Rightarrow> 'a list" where
  "insert_by cmp x [] = [x]"
| "insert_by cmp x (y # ys) = (if cmp x y \<le> 0 then x # y # ys else y # insert_by cmp x ys)"

definition Array_sort :: "('a \<Rightarrow> 'a \<Rightarrow> int) \<Rightarrow> 'a list \<Rightarrow> 'a list" where
  "Array_sort cmp xs = foldr (insert_by cmp) xs []"

definition by_count_desc :: "jsstring \<times> int \<Rightarrow> jsstring \<times> int \<Rightarrow> int" where
  "by_count_desc a b = snd b - snd a"

definition sortedInst :: "dataset \<Rightarrow> (jsstring \<times> int) list" where
  "sortedInst data =
     take 8 (Array_sort by_count_desc (Object_entries (global_instruments data)))"

text \<open>
  The label of a bar:
  \<^verbatim>\<open>d[0].replace(/_/g, ' ').replace('fiscal ', '').replace('tax ', '')\<close>
\<close>

definition instrument_label :: "jsstring \<Rightarrow> jsstring" where
  "instrument_label code =
     replace_first (ascii ''tax '') []
       (replace_first (ascii ''fiscal '') [] (replace_underscores code))"

definition initCharts :: "dataset \<Rightarrow> app \<Rightarrow> app" where
  "initCharts data st =
     st\<lparr>globalPolicies := policies data,
        instChart := \<lparr>labels = map (\<lambda>d. instrument_label (fst d)) (sortedInst data),
                      rawKeys = map fst (sortedInst data),
                      counts = map snd (sortedInst data)\<rparr>\<rparr>"

text \<open>
  The \<^verbatim>\<open>onClick\<close> option of the instrument chart. \<open>elements\<close> holds the indices of the
  bars under the pointer. An index outside \<^verbatim>\<open>rawKeys\<close> reads \<^verbatim>\<open>undefined\<close>, and
  \<^verbatim>\<open>filterTableByInstrument\<close> then throws on \<^verbatim>\<open>instrumentKey.replace\<close> before it writes
  anything. A click on no bar renders the first 50 records again.
\<close>

definition instChart_onClick :: "nat list \<Rightarrow> app \<Rightarrow> error + app" where
  "instChart_onClick elements st =
     (if length elements > 0 then
        (let index = hd elements
         in if index < length (rawKeys (instChart st))
            then Inr (filterTableByInstrument (rawKeys (instChart st) ! index) st)
            else Inl TypeError)
      else Inr (renderTable (take 50 (globalPolicies st)) st))"

section \<open>The modal\<close>

definition html_or :: "'a list \<Rightarrow> jsstring \<Rightarrow> 'a block" where
  "html_or items fallback = (if items = [] then Fallback fallback else Items items)"

definition evidence_quote :: "entry \<Rightarrow> jsval option" where
  "evidence_quote v = (if truthy (evidence v) then Some (evidence v) else None)"

definition target_items :: "policy \<Rightarrow> target_item list" where
  "target_items p =
     (case targets p of
        None \<Rightarrow> []
      | Some t \<Rightarrow>
          concat (map (\<lambda>kv.
            case snd kv of
              None \<Rightarrow> []
            | Some v \<Rightarrow>
                if truthy (entry_value v)
                then [\<lparr>target_label = replace_underscores (replace_first (ascii ''target_'') [] (fst kv)),
                       target_value = entry_value v,
                       target_unit = (if includes_str (fst kv) (ascii ''vehicle'')
                                      then ascii ''Vehicles'' else []),
                       target_evidence = evidence_quote v\<rparr>]
                else [])
            (Object_entries t)))"

text \<open>\<^verbatim>\<open>const allFinance = { ...p.subsidies, ...p.taxes, ...p.rd }\<close>\<close>

definition allFinance :: "policy \<Rightarrow> entry option jsobj" where
  "allFinance p = spread_into (rd p) (spread_into (taxes p) (spread_into (subsidies p) []))"

text \<open>The test \<^verbatim>\<open>v && (v.value || v.evidence)\<close> on one property of \<^verbatim>\<open>allFinance\<close>.\<close>

definition finance_shown :: "entry option \<Rightarrow> bool" where
  "finance_shown v =
     (case v of None \<Rightarrow> False | Some e \<Rightarrow> truthy (js_or (entry_value e) (evidence e)))"

definition finance_item_of :: "jsstring \<Rightarrow> entry \<Rightarrow> finance_item" where
  "finance_item_of k v =
     \<lparr>finance_label = replace_underscores k,
      finance_value = js_or (entry_value v) (JStr (ascii ''Yes'')),
      finance_evidence = evidence_quote v\<rparr>"

definition finance_items :: "policy \<Rightarrow> finance_item list" where
  "finance_items p =
     concat (map (\<lambda>kv.
       case snd kv of
         None \<Rightarrow> []
       | Some v \<Rightarrow> if finance_shown (Some v) then [finance_item_of (fst kv) v] else [])
       (Object_entries (allFinance p)))"

definition other_items :: "policy \<Rightarrow> jsstring list" where
  "other_items p =
     (case other p of None \<Rightarrow> [] | Some xs \<Rightarrow> if length xs > 0 then xs else [])"

definition openModal :: "jsstring \<Rightarrow> app \<Rightarrow> app" where
  "openModal policyId st =
     (case find (\<lambda>x. policy_id x = policyId) (globalPolicies st) of
        None \<Rightarrow> st
      | Some p \<Rightarrow>
          st\<lparr>modal_title := title p,
             modal_targets :=
               html_or (target_items p) (ascii ''No specific quantitative targets found.''),
             modal_subsidies :=
               html_or (finance_items p) (ascii ''No specific financial instruments found.''),
             modal_instruments := html_or (other_items p) (ascii ''None.''),
             modal_overlay_hidden := False\<rparr>)"

definition closeModal :: "app \<Rightarrow> app" where
  "closeModal st = st\<lparr>modal_overlay_hidden := True\<rparr>"

section \<open>\<^verbatim>\<open>initDashboard\<close>\<close>

text \<open>
  The steps of \<^verbatim>\<open>initDashboard\<close> that write the page state above, once both documents
  have been fetched: the KPIs, the charts, and the table limited to the first 50 records.
\<close>

definition initDashboard :: "dataset \<Rightarrow> app \<Rightarrow> app" where
  "initDashboard data st =
     renderTable (take 50 (policies data)) (initCharts data (renderKPIs data st))"

section \<open>Reading an object as a finite map\<close>

text \<open>
  For stating what the spread of three objects holds: the properties of an optional
  object as a partial function from keys, and the invariant lifted to an optional object.
\<close>

definition own_props :: "'v jsobj option \<Rightarrow> (jsstring \<rightharpoonup> 'v)" where
  "own_props obj = (case obj of None \<Rightarrow> Map.empty | Some ps \<Rightarrow> map_of ps)"

definition opt_obj_ok :: "'v jsobj option \<Rightarrow> bool" where
  "opt_obj_ok obj = (case obj of None \<Rightarrow> True | Some ps \<Rightarrow> obj_ok ps)"

section \<open>A small dataset\<close>

text \<open>
  Two records, ten instrument counts with a three-way tie at 7, and a summary whose
  \<^verbatim>\<open>total_policies\<close> differs from the number of records. The first record has a title
  of 40 code units, the year 0, and one subsidy whose value is the number 0. The second
  has a key in both \<^verbatim>\<open>subsidies\<close> and \<^verbatim>\<open>taxes\<close>, an entry with evidence only, a
  \<^verbatim>\<open>null\<close> entry and an entry with neither value nor evidence.
\<close>

definition ex_p1 :: policy where
  "ex_p1 =
     \<lparr>policy_id = ascii ''x1'',
      title = ascii ''Hydrogen vehicle purchase subsidy scheme'',
      province = [0x4E0A, 0x6D77, 0x5E02],
      year = JNum 0,
      instruments = [ascii ''fiscal_purchase_subsidy'', ascii ''tax_exemption_pilot''],
      targets = None,
      subsidies = Some [(ascii ''fiscal_purchase_subsidy'',
                         Some \<lparr>entry_value = JNum 0, evidence = JNull\<rparr>)],
      taxes = None,
      rd = None,
      other = None\<rparr>"

definition ex_p2 :: policy where
  "ex_p2 =
     \<lparr>policy_id = ascii ''x2'',
      title = ascii ''Fuel cell plan'',
      province = ascii ''Sichuan'',
      year = JNum 2022,
      instruments = [ascii ''land_use''],
      targets = None,
      subsidies = Some [(ascii ''fiscal_grant'',
                         Some \<lparr>entry_value = JStr (ascii ''5m''), evidence = JNull\<rparr>),
                        (ascii ''fiscal_loan'',
                         Some \<lparr>entry_value = JNull, evidence = JStr (ascii ''loans'')\<rparr>)],
      taxes = Some [(ascii ''fiscal_grant'',
                     Some \<lparr>entry_value = JStr (ascii ''7m''), evidence = JNull\<rparr>),
                    (ascii ''tax_cut'', None)],
      rd = Some [(ascii ''rd_fund'', Some \<lparr>entry_value = JNull, evidence = JNull\<rparr>)],
      other = None\<rparr>"

text \<open>A record whose title holds double quotes: \<^verbatim>\<open>H2 "green" plan\<close>.\<close>

definition ex_p3 :: policy where
  "ex_p3 =
     \<lparr>policy_id = ascii ''x3'',
      title = ascii ''H2 '' @ [0x22] @ ascii ''green'' @ [0x22] @ ascii '' plan'',
      province = ascii ''Sichuan'',
      year = JNum 2023,
      instruments = [],
      targets = None,
      subsidies = None,
      taxes = None,
      rd = None,
      other = None\<rparr>"

text \<open>A dataset whose only instrument code has \<^verbatim>\<open>tax_\<close> in the middle.\<close>

definition ex_data_rebate :: dataset where
  "ex_data_rebate =
     \<lparr>summary = \<lparr>total_policies = 0, top_instrument = ascii ''local_tax_rebate''\<rparr>,
      provinces = [],
      global_instruments = [(ascii ''local_tax_rebate'', 3)],
      policies = []\<rparr>"

definition ex_instruments :: "int jsobj" where
  "ex_instruments =
     [(ascii ''fiscal_purchase_subsidy'', 7), (ascii ''tax_exemption'', 9),
      (ascii ''land_use'', 7), (ascii ''a'', 1), (ascii ''b'', 2), (ascii ''c'', 3),
      (ascii ''d'', 4), (ascii ''e'', 5), (ascii ''f'', 6), (ascii ''g'', 7)]"

definition ex_data :: dataset where
  "ex_data =
     \<lparr>summary = \<lparr>total_policies = 5, top_instrument = ascii ''tax_exemption''\<rparr>,
      provinces = [([0x4E0A, 0x6D77, 0x5E02], \<lparr>count_stat = 1, subsidy_intensity = 2\<rparr>),
                   (ascii ''Sichuan'', \<lparr>count_stat = 1, subsidy_intensity = 0\<rparr>)],
      global_instruments = ex_instruments,
      policies = [ex_p1, ex_p2]\<rparr>"

definition ex_app0 :: app where
  "ex_app0 =
     \<lparr>globalPolicies = [],
      instChart = \<lparr>labels = [], rawKeys = [], counts = []\<rparr>,
      kpi_total = 0,
      kpi_top_inst = [],
      kpi_provinces = 0,
      tableTitle = ascii ''Evidence Locker'',
      policy_tbody = Rows [],
      modal_title = [],
      modal_targets = Items [],
      modal_subsidies = Items [],
      modal_instruments = Items [],
      modal_overlay_hidden = True\<rparr>"

definition ex_app :: app where
  "ex_app = initDashboard ex_data ex_app0"

definition ex_features :: "nat feature list" where
  "ex_features =
     [\<lparr>properties = \<lparr>name = Some (ascii ''Hubei''), adcode = Some 420000\<rparr>, geometry = 1\<rparr>,
      \<lparr>properties = \<lparr>name = Some [0x53F0, 0x6E7E, 0x7701], adcode = Some 710000\<rparr>, geometry = 2\<rparr>,
      \<lparr>properties = \<lparr>name = Some [], adcode = None\<rparr>, geometry = 3\<rparr>,
      \<lparr>properties = \<lparr>name = Some (ascii ''Hunan''), adcode = Some 430000\<rparr>, geometry = 4\<rparr>]"

definition ex_kept :: "nat feature list" where
  "ex_kept =
     [\<lparr>properties = \<lparr>name = Some (ascii ''Hubei''), adcode = Some 420000\<rparr>, geometry = 1\<rparr>,
      \<lparr>properties = \<lparr>name = Some (ascii ''Hunan''), adcode = Some 430000\<rparr>, geometry = 4\<rparr>]"

section \<open>Strings, objects and the sort\<close>

lemma includes_str_sublist: "includes_str s t \<longleftrightarrow> sublist t s"
  by (induction s) (auto simp: sublist_Cons_right)

lemma replace_first_absent:
  "\<not> includes_str s pat \<Longrightarrow> replace_first pat rep s = s"
  by (induction s) auto

lemma replace_first_leading:
  "replace_first pat [] (pat @ r) = r"
proof (cases "pat @ r")
  case Nil
  then show ?thesis by simp
next
  case (Cons a list)
  have p: "prefix pat (a # list)" by (simp flip: Cons)
  have d: "drop (length pat) (a # list) = r" by (simp flip: Cons)
  from p d show ?thesis unfolding Cons by simp
qed

lemma fiscal_not_across_tax:
  "includes_str (ascii ''tax '' @ r) (ascii ''fiscal '') = includes_str r (ascii ''fiscal '')"
  by (simp add: ascii_def)

lemma instrument_label_cases:
  "(\<not> includes_str (replace_underscores code) (ascii ''fiscal '')
      \<and> \<not> includes_str (replace_underscores code) (ascii ''tax '')
      \<longrightarrow> instrument_label code = replace_underscores code)
   \<and> (replace_underscores code = ascii ''fiscal '' @ r \<and> \<not> includes_str r (ascii ''tax '')
      \<longrightarrow> instrument_label code = r)
   \<and> (replace_underscores code = ascii ''tax '' @ r \<and> \<not> includes_str r (ascii ''fiscal '')
      \<longrightarrow> instrument_label code = r)"
  by (simp add: instrument_label_def replace_first_absent replace_first_leading
      fiscal_not_across_tax)

text \<open>The enumeration of an object is a rearrangement of its properties.\<close>

lemma mset_Object_entries: "mset (Object_entries obj) = mset obj"
  by (simp add: Object_entries_def)

lemma length_Object_entries: "length (Object_entries obj) = length obj"
  using mset_Object_entries [of obj] by (metis size_mset)

lemma set_Object_entries: "set (Object_entries obj) = set obj"
  using mset_Object_entries [of obj] by (metis set_mset_mset)

lemma distinct_keys_Object_entries:
  "distinct (map fst (Object_entries obj)) \<longleftrightarrow> distinct (map fst obj)"
proof -
  have "mset (map fst (Object_entries obj)) = mset (map fst obj)"
    by (simp add: mset_Object_entries)
  then show ?thesis by (rule mset_eq_imp_distinct_iff)
qed

lemma map_of_Object_entries:
  assumes "obj_ok obj"
  shows "map_of (Object_entries obj) = map_of obj"
  using assms
  by (simp add: map_of_inject_set distinct_keys_Object_entries set_Object_entries obj_ok_def)

lemma map_of_rev_distinct:
  assumes "distinct (map fst xs)"
  shows "map_of (rev xs) = map_of xs"
proof -
  from assms have "distinct (map fst (rev xs))"
    by (simp add: rev_map [symmetric])
  with assms show ?thesis
    by (simp add: map_of_inject_set)
qed

text \<open>Copying properties one by one: a later property overrides an earlier one.\<close>

lemma map_of_fold_update:
  "map_of (fold (\<lambda>e t. AList.update (fst e) (snd e) t) es t) = map_of t ++ map_of (rev es)"
proof (induction es arbitrary: t)
  case Nil
  show ?case by simp
next
  case (Cons e es)
  show ?case
    by (rule ext) (simp add: Cons.IH update_conv' map_add_def split: option.splits)
qed

lemma distinct_fold_update:
  "distinct (map fst t) \<Longrightarrow>
   distinct (map fst (fold (\<lambda>e t. AList.update (fst e) (snd e) t) es t))"
  by (induction es arbitrary: t) (simp_all add: distinct_update)

lemma map_of_spread_into:
  assumes "opt_obj_ok src"
  shows "map_of (spread_into src tgt) = map_of tgt ++ own_props src"
proof (cases src)
  case None
  then show ?thesis by (simp add: spread_into_def own_props_def)
next
  case (Some s)
  with assms have ok: "obj_ok s" by (simp add: opt_obj_ok_def)
  then have "distinct (map fst (Object_entries s))"
    by (simp add: distinct_keys_Object_entries obj_ok_def)
  then have "map_of (rev (Object_entries s)) = map_of s"
    using ok by (simp add: map_of_rev_distinct map_of_Object_entries)
  with Some show ?thesis
    by (simp add: spread_into_def own_props_def map_of_fold_update)
qed

lemma obj_ok_spread_into:
  "obj_ok tgt \<Longrightarrow> obj_ok (spread_into src tgt)"
  by (cases src) (simp_all add: spread_into_def obj_ok_def distinct_fold_update)

text \<open>
  With the comparison function of \<^verbatim>\<open>initCharts\<close>, the sort is the stable insertion sort
  on the negated count.
\<close>

lemma insert_by_count_desc:
  "insert_by by_count_desc x ys = insort_key (\<lambda>e. - snd e) x ys"
  by (induction ys) (auto simp: by_count_desc_def)

lemma Array_sort_by_count_desc:
  "Array_sort by_count_desc xs = sort_key (\<lambda>e. - snd e) xs"
  by (induction xs) (simp_all add: Array_sort_def insert_by_count_desc)

lemma sorted_by_count_desc:
  "sorted_wrt (\<lambda>a b. snd b \<le> snd a) (Array_sort by_count_desc xs)"
proof -
  have "sorted (map (\<lambda>e. - snd e) (sort_key (\<lambda>e. - snd e) xs))"
    by (rule sorted_sort_key)
  then show ?thesis
    by (simp add: Array_sort_by_count_desc sorted_map)
qed

lemma stable_by_count_desc:
  "filter (\<lambda>e. snd e = c) (Array_sort by_count_desc xs) = filter (\<lambda>e. snd e = c) xs"
proof -
  have "filter (\<lambda>e. - snd e = - c) (sort_key (\<lambda>e. - snd e) xs) = filter (\<lambda>e. - snd e = - c) xs"
    by (rule sort_key_stable)
  then show ?thesis by (simp add: Array_sort_by_count_desc)
qed

section \<open>The geometry filter\<close>

lemma feature_filter_iff:
  "feature_filter f \<longleftrightarrow>
     \<not> includes_str (name_or_empty f) marker_zh \<and> \<not> includes_str (name_or_empty f) marker_en
     \<and> adcode (properties f) \<noteq> Some 710000 \<and> name_or_empty f \<noteq> []"
  by (simp add: feature_filter_def Let_def)

text \<open>
  C5. Whatever the boundary document, the features that \<^verbatim>\<open>initMap\<close> keeps contain no
  feature with administrative code 710000, none whose name contains one of the two
  markers, and none with an empty (or absent) name; they are a subsequence of the input
  features, so their relative order is the input's.
\<close>

theorem initMap_filter_sanitizes:
  assumes "features (initMap_filter geoJson) = Some out"
  shows "\<exists>inp. features geoJson = Some inp \<and> subseq out inp \<and>
           (\<forall>f \<in> set out.
              adcode (properties f) \<noteq> Some 710000
              \<and> \<not> includes_str (name_or_empty f) marker_zh
              \<and> \<not> includes_str (name_or_empty f) marker_en
              \<and> name (properties f) \<noteq> None \<and> name (properties f) \<noteq> Some [])"
proof (cases "features geoJson")
  case None
  with assms show ?thesis by (simp add: initMap_filter_def)
next
  case (Some inp)
  with assms have out: "out = filter feature_filter inp"
    by (simp add: initMap_filter_def)
  have sub: "subseq out inp"
    unfolding out by (rule subseq_filter_left)
  have props: "\<forall>f \<in> set out.
              adcode (properties f) \<noteq> Some 710000
              \<and> \<not> includes_str (name_or_empty f) marker_zh
              \<and> \<not> includes_str (name_or_empty f) marker_en
              \<and> name (properties f) \<noteq> None \<and> name (properties f) \<noteq> Some []"
    unfolding out
    by (auto simp: feature_filter_iff name_or_empty_def split: option.splits)
  from Some sub props show ?thesis by blast
qed

theorem initMap_filter_sanitizes_witness:
  "features (initMap_filter \<lparr>features = Some ex_features\<rparr>) = Some ex_kept
   \<and> subseq ex_kept ex_features"
proof -
  have run: "features (initMap_filter \<lparr>features = Some ex_features\<rparr>) = Some ex_kept"
    by (simp add: initMap_filter_def feature_filter_def name_or_empty_def marker_zh_def
        marker_en_def ascii_def ex_features_def ex_kept_def)
  from initMap_filter_sanitizes [OF run] obtain inp
    where "Some ex_features = Some inp" and "subseq ex_kept inp"
    by auto
  with run show ?thesis by simp
qed

text \<open>
  C9. Filtering the features a second time changes nothing: the filter of \<^verbatim>\<open>initMap\<close>
  is idempotent on every boundary document.
\<close>

theorem initMap_filter_idempotent:
  "initMap_filter (initMap_filter geoJson) = initMap_filter geoJson"
  by (cases "features geoJson") (simp_all add: initMap_filter_def)

section \<open>The table and its filters\<close>

lemma renderTable_tbody:
  "policy_tbody (renderTable ps st) = (if ps = [] then NoPoliciesFound else Rows (map table_row ps))"
  by (simp add: renderTable_def)

lemma renderTable_globalPolicies:
  "globalPolicies (renderTable ps st) = globalPolicies st"
  by (simp add: renderTable_def)

lemma filterTableByProvince_tbody:
  "policy_tbody (filterTableByProvince P st) =
     (if filter (\<lambda>p. province p = P) (globalPolicies st) = [] then NoPoliciesFound
      else Rows (map table_row (filter (\<lambda>p. province p = P) (globalPolicies st))))"
  by (simp add: filterTableByProvince_def Let_def renderTable_tbody)

lemma filterTableByProvince_globalPolicies:
  "globalPolicies (filterTableByProvince P st) = globalPolicies st"
  by (simp add: filterTableByProvince_def Let_def renderTable_globalPolicies)

lemma renderTable_tableTitle:
  "tableTitle (renderTable ps st) = tableTitle st"
  by (simp add: renderTable_def)

lemma filterTableByProvince_tableTitle:
  "tableTitle (filterTableByProvince P st) = ascii ''Policies in: '' @ P"
  by (simp add: filterTableByProvince_def Let_def renderTable_tableTitle)

lemma filterTableByProvince_twice:
  "filterTableByProvince P (filterTableByProvince P st) = filterTableByProvince P st"
  by (simp add: filterTableByProvince_def Let_def renderTable_def)

lemma initDashboard_globalPolicies:
  "globalPolicies (initDashboard data st) = policies data"
  by (simp add: initDashboard_def renderTable_globalPolicies initCharts_def)

lemma initDashboard_tbody:
  "policy_tbody (initDashboard data st) = policy_tbody (renderTable (take 50 (policies data)) st)"
  by (simp add: initDashboard_def renderTable_tbody)

lemma instChart_onClick_nothing:
  "instChart_onClick [] st = Inr (renderTable (take 50 (globalPolicies st)) st)"
  by (simp add: instChart_onClick_def)

lemma ex_app_policies: "globalPolicies ex_app = [ex_p1, ex_p2]"
  by (simp add: ex_app_def initDashboard_globalPolicies ex_data_def)

lemma ex_app_hidden: "modal_overlay_hidden ex_app = True"
  by (simp add: ex_app_def initDashboard_def renderTable_def initCharts_def renderKPIs_def
      ex_app0_def)

text \<open>
  C1. After \<^verbatim>\<open>filterTableByProvince(P)\<close> the table shows exactly the records of
  \<^verbatim>\<open>globalPolicies\<close> whose \<^verbatim>\<open>province\<close> is the string \<open>P\<close>, in collection order (the
  placeholder row when there is none); calling it a second time with the same \<open>P\<close> gives
  the same page; and the reset of the dashboard (a click on no bar of the instrument
  chart) afterwards shows again what \<^verbatim>\<open>initDashboard\<close> showed: the first 50 records of
  the collection, which is itself unchanged. (The reset renders the table only: the
  heading above it still reads \<^verbatim>\<open>Policies in: P\<close>.)
\<close>

theorem filterTableByProvince_visible:
  "policy_tbody (filterTableByProvince P st) =
     (if filter (\<lambda>p. province p = P) (globalPolicies st) = [] then NoPoliciesFound
      else Rows (map table_row (filter (\<lambda>p. province p = P) (globalPolicies st))))
   \<and> set (filter (\<lambda>p. province p = P) (globalPolicies st))
       = {p \<in> set (globalPolicies st). province p = P}
   \<and> filterTableByProvince P (filterTableByProvince P st) = filterTableByProvince P st
   \<and> (\<exists>st'. instChart_onClick [] (filterTableByProvince P st) = Inr st'
        \<and> policy_tbody st' =
            (if globalPolicies st = [] then NoPoliciesFound
             else Rows (map table_row (take 50 (globalPolicies st))))
        \<and> globalPolicies st' = globalPolicies st)
   \<and> (\<exists>st'. instChart_onClick [] (filterTableByProvince P (initDashboard data st0)) = Inr st'
        \<and> policy_tbody st' = policy_tbody (initDashboard data st0)
        \<and> policy_tbody st' =
            (if policies data = [] then NoPoliciesFound
             else Rows (map table_row (take 50 (policies data))))
        \<and> globalPolicies st' = policies data
        \<and> tableTitle st' = ascii ''Policies in: '' @ P)"
proof -
  let ?st1 = "filterTableByProvince P (initDashboard data st0)"
  let ?st' = "renderTable (take 50 (globalPolicies ?st1)) ?st1"
  have g: "globalPolicies ?st1 = policies data"
    by (simp add: filterTableByProvince_globalPolicies initDashboard_globalPolicies)
  have "instChart_onClick [] ?st1 = Inr ?st'"
    by (rule instChart_onClick_nothing)
  moreover have "policy_tbody ?st' = policy_tbody (initDashboard data st0)"
    by (simp add: g initDashboard_tbody renderTable_tbody)
  moreover have "policy_tbody ?st' =
            (if policies data = [] then NoPoliciesFound
             else Rows (map table_row (take 50 (policies data))))"
    by (simp add: g renderTable_tbody)
  moreover have "globalPolicies ?st' = policies data"
    by (simp add: g renderTable_globalPolicies)
  moreover have "tableTitle ?st' = ascii ''Policies in: '' @ P"
    by (simp add: renderTable_tableTitle filterTableByProvince_tableTitle)
  ultimately have reset: "\<exists>st'. instChart_onClick [] ?st1 = Inr st'
        \<and> policy_tbody st' = policy_tbody (initDashboard data st0)
        \<and> policy_tbody st' =
            (if policies data = [] then NoPoliciesFound
             else Rows (map table_row (take 50 (policies data))))
        \<and> globalPolicies st' = policies data
        \<and> tableTitle st' = ascii ''Policies in: '' @ P"
    by blast
  let ?st2 = "filterTableByProvince P st"
  let ?st3 = "renderTable (take 50 (globalPolicies ?st2)) ?st2"
  have g2: "globalPolicies ?st2 = globalPolicies st"
    by (rule filterTableByProvince_globalPolicies)
  have "instChart_onClick [] ?st2 = Inr ?st3"
    by (rule instChart_onClick_nothing)
  moreover have "policy_tbody ?st3 =
            (if globalPolicies st = [] then NoPoliciesFound
             else Rows (map table_row (take 50 (globalPolicies st))))"
    by (simp add: g2 renderTable_tbody)
  moreover have "globalPolicies ?st3 = globalPolicies st"
    by (simp add: g2 renderTable_globalPolicies)
  ultimately have reset_any: "\<exists>st'. instChart_onClick [] ?st2 = Inr st'
        \<and> policy_tbody st' =
            (if globalPolicies st = [] then NoPoliciesFound
             else Rows (map table_row (take 50 (globalPolicies st))))
        \<and> globalPolicies st' = globalPolicies st"
    by blast
  have members: "set (filter (\<lambda>p. province p = P) (globalPolicies st))
       = {p \<in> set (globalPolicies st). province p = P}"
    by simp
  from filterTableByProvince_tbody members filterTableByProvince_twice reset_any reset
  show ?thesis by (intro conjI)
qed

text \<open>
  C2. After \<^verbatim>\<open>filterTableByInstrument(C)\<close> the table shows exactly the records whose
  \<^verbatim>\<open>instruments\<close> array has \<open>C\<close> as one of its elements, in collection order; when no
  record has it, the result is the empty selection, shown as the placeholder row. The
  function has no failing path on a string \<open>C\<close>.
\<close>

theorem filterTableByInstrument_visible:
  "policy_tbody (filterTableByInstrument C st) =
     (if filter (\<lambda>p. C \<in> set (instruments p)) (globalPolicies st) = [] then NoPoliciesFound
      else Rows (map table_row (filter (\<lambda>p. C \<in> set (instruments p)) (globalPolicies st))))
   \<and> set (filter (\<lambda>p. C \<in> set (instruments p)) (globalPolicies st))
       = {p \<in> set (globalPolicies st). C \<in> set (instruments p)}
   \<and> ((\<forall>p \<in> set (globalPolicies st). C \<notin> set (instruments p)) \<longrightarrow>
        filter (\<lambda>p. C \<in> set (instruments p)) (globalPolicies st) = []
        \<and> policy_tbody (filterTableByInstrument C st) = NoPoliciesFound)"
proof -
  have tb: "policy_tbody (filterTableByInstrument C st) =
     (if filter (\<lambda>p. C \<in> set (instruments p)) (globalPolicies st) = [] then NoPoliciesFound
      else Rows (map table_row (filter (\<lambda>p. C \<in> set (instruments p)) (globalPolicies st))))"
    by (simp add: filterTableByInstrument_def Let_def renderTable_tbody)
  have none: "filter (\<lambda>p. C \<in> set (instruments p)) (globalPolicies st) = []"
    if "\<forall>p \<in> set (globalPolicies st). C \<notin> set (instruments p)"
    using that by (simp add: filter_empty_conv)
  from tb none show ?thesis by simp
qed

theorem filterTableByInstrument_visible_witness:
  "policy_tbody (filterTableByInstrument (ascii ''tax_exemption'') ex_app) = NoPoliciesFound
   \<and> policy_tbody (filterTableByInstrument (ascii ''land_use'') ex_app) = Rows [table_row ex_p2]"
proof -
  have h: "\<forall>p \<in> set (globalPolicies ex_app). ascii ''tax_exemption'' \<notin> set (instruments p)"
    by (simp add: ex_app_policies ex_p1_def ex_p2_def ascii_def)
  have v: "filter (\<lambda>p. ascii ''land_use'' \<in> set (instruments p)) (globalPolicies ex_app) = [ex_p2]"
    by (simp add: ex_app_policies ex_p1_def ex_p2_def ascii_def)
  from filterTableByInstrument_visible [of "ascii ''tax_exemption''" ex_app] h
  have "policy_tbody (filterTableByInstrument (ascii ''tax_exemption'') ex_app) = NoPoliciesFound"
    by blast
  moreover from filterTableByInstrument_visible [of "ascii ''land_use''" ex_app]
  have "policy_tbody (filterTableByInstrument (ascii ''land_use'') ex_app) = Rows [table_row ex_p2]"
    by (simp add: v)
  ultimately show ?thesis by simp
qed

text \<open>
  The text interpolated into the title cell: a title of more than 35 code units gives its
  first 35 code units followed by three dots, 38 code units in all; a title of at most 35
  is interpolated as it is; the value interpolated into the \<^verbatim>\<open>title\<close> attribute is the
  whole title.
\<close>

lemma title_cell_truncates:
  "(length t > 35 \<longrightarrow> title_cell t = take 35 t @ ascii ''...'' \<and> length (title_cell t) = 38)
   \<and> (length t \<le> 35 \<longrightarrow> title_cell t = t)
   \<and> length (title_cell t) \<le> 38
   \<and> title_text (table_row p) = title_cell (title p)
   \<and> title_attr (table_row p) = title p"
  by (auto simp: title_cell_def table_row_def ascii_def)

lemma title_cell_truncates_example:
  "length (title ex_p1) = 40
   \<and> title_text (table_row ex_p1) = ascii ''Hydrogen vehicle purchase subsidy s...''
   \<and> title_attr (table_row ex_p1) = ascii ''Hydrogen vehicle purchase subsidy scheme''
   \<and> title_text (table_row ex_p2) = ascii ''Fuel cell plan''"
  by (simp add: table_row_def title_cell_def ex_p1_def ex_p2_def ascii_def)

text \<open>
  C8. The claim wants, for every title, the whole title kept for the hover text of the
  cell. \<^verbatim>\<open>renderTable\<close> writes the title between double quotes without escaping it,
  so a title that holds a double quote ends the attribute early. For the title
  \<^verbatim>\<open>H2 "green" plan\<close> (15 code units, so not truncated) the cell handed to
  \<^verbatim>\<open>innerHTML\<close> is \<^verbatim>\<open><td title="H2 "green" plan">H2 "green" plan</td>\<close>, and the
  \<^verbatim>\<open>title\<close> attribute the page gets is \<^verbatim>\<open>H2 \<close> with its trailing space, not the
  title.
\<close>

theorem title_attribute_unescaped:
  "title ex_p3 = ascii ''H2 '' @ [0x22] @ ascii ''green'' @ [0x22] @ ascii '' plan''
   \<and> length (title ex_p3) = 15
   \<and> title_td ex_p3 =
       ascii ''<td title='' @ [0x22] @ ascii ''H2 '' @ [0x22] @ ascii ''green'' @ [0x22]
       @ ascii '' plan'' @ [0x22] @ ascii ''>H2 '' @ [0x22] @ ascii ''green'' @ [0x22]
       @ ascii '' plan</td>''
   \<and> title_attribute_of (title_td ex_p3) = ascii ''H2 ''
   \<and> title_attribute_of (title_td ex_p3) \<noteq> title ex_p3"
  by (simp add: title_td_def title_attribute_of_def title_cell_def ex_p3_def ascii_def)

text \<open>
  C10. The year cell of a row is the record's \<^verbatim>\<open>year\<close> when that value is truthy and
  the placeholder \<^verbatim>\<open>-\<close> when it is falsy; so a record whose year is the number 0 shows
  the placeholder although it has a year.
\<close>

theorem year_cell_placeholder:
  "year_cell (table_row p) = (if truthy (year p) then year p else JStr (ascii ''-''))
   \<and> (year p = JNum 0 \<longrightarrow> year_cell (table_row p) = JStr (ascii ''-''))"
  by (simp add: table_row_def js_or_def)

theorem year_cell_placeholder_witness:
  "year ex_p1 = JNum 0 \<and> year_cell (table_row ex_p1) = JStr (ascii ''-'')
   \<and> year_cell (table_row ex_p2) = JNum 2022"
proof -
  have y1: "year ex_p1 = JNum 0" by (simp add: ex_p1_def)
  have y2: "year ex_p2 = JNum 2022" by (simp add: ex_p2_def)
  from year_cell_placeholder [of ex_p1] y1
  have "year_cell (table_row ex_p1) = JStr (ascii ''-'')" by blast
  moreover from year_cell_placeholder [of ex_p2] y2
  have "year_cell (table_row ex_p2) = JNum 2022" by simp
  ultimately show ?thesis using y1 by simp
qed

section \<open>The instrument chart\<close>

lemma ex_sortedInst:
  "sortedInst ex_data =
     [(ascii ''tax_exemption'', 9), (ascii ''fiscal_purchase_subsidy'', 7),
      (ascii ''land_use'', 7), (ascii ''g'', 7), (ascii ''f'', 6), (ascii ''e'', 5),
      (ascii ''d'', 4), (ascii ''c'', 3)]"
  by (simp add: sortedInst_def ex_data_def ex_instruments_def ascii_def Object_entries_def
      is_array_index_def is_digit_def digits_value_def Array_sort_def by_count_desc_def)

text \<open>
  The bars of the instrument chart are the entries of \<^verbatim>\<open>global_instruments\<close>, in the
  order \<^verbatim>\<open>Object.entries\<close> gives them, sorted by count descending with entries of equal
  count left in that order, cut to the first 8. The chart keeps, index by index, the
  label, the untransformed code and the count, and a click on bar \<open>i\<close> filters the table
  by the untransformed code of that bar.
\<close>

lemma instrument_rank_series:
  "(let es = Object_entries (global_instruments data);
        ranked = Array_sort by_count_desc es;
        chart = instChart (initCharts data st)
    in mset ranked = mset es
       \<and> sorted_wrt (\<lambda>a b. snd b \<le> snd a) ranked
       \<and> (\<forall>c. filter (\<lambda>e. snd e = c) ranked = filter (\<lambda>e. snd e = c) es)
       \<and> sortedInst data = take 8 ranked
       \<and> rawKeys chart = map fst (sortedInst data)
       \<and> counts chart = map snd (sortedInst data)
       \<and> labels chart = map instrument_label (rawKeys chart)
       \<and> (\<forall>i < length (rawKeys chart).
             instChart_onClick [i] (initCharts data st)
               = Inr (filterTableByInstrument (fst (sortedInst data ! i)) (initCharts data st))))"
proof -
  have perm: "mset (Array_sort by_count_desc xs) = mset xs" for xs :: "(jsstring \<times> int) list"
    by (simp add: Array_sort_by_count_desc)
  have click: "instChart_onClick [i] (initCharts data st)
               = Inr (filterTableByInstrument (fst (sortedInst data ! i)) (initCharts data st))"
    if "i < length (sortedInst data)" for i
    using that by (simp add: instChart_onClick_def initCharts_def)
  have chart: "rawKeys (instChart (initCharts data st)) = map fst (sortedInst data)"
    "counts (instChart (initCharts data st)) = map snd (sortedInst data)"
    "labels (instChart (initCharts data st)) = map instrument_label (map fst (sortedInst data))"
    by (simp_all add: initCharts_def)
  show ?thesis
    unfolding Let_def
    using perm sorted_by_count_desc stable_by_count_desc click chart
    by (simp add: sortedInst_def)
qed

lemma instrument_rank_series_example:
  "sortedInst ex_data =
     [(ascii ''tax_exemption'', 9), (ascii ''fiscal_purchase_subsidy'', 7),
      (ascii ''land_use'', 7), (ascii ''g'', 7), (ascii ''f'', 6), (ascii ''e'', 5),
      (ascii ''d'', 4), (ascii ''c'', 3)]
   \<and> instChart_onClick [1] (initCharts ex_data ex_app0)
       = Inr (filterTableByInstrument (ascii ''fiscal_purchase_subsidy'') (initCharts ex_data ex_app0))"
proof -
  note rank = instrument_rank_series [of ex_data ex_app0, unfolded Let_def]
  have keys: "rawKeys (instChart (initCharts ex_data ex_app0)) = map fst (sortedInst ex_data)"
    using rank by blast
  have "1 < length (rawKeys (instChart (initCharts ex_data ex_app0)))"
    by (simp add: keys ex_sortedInst)
  with rank have "instChart_onClick [1] (initCharts ex_data ex_app0)
       = Inr (filterTableByInstrument (fst (sortedInst ex_data ! 1)) (initCharts ex_data ex_app0))"
    by blast
  then have click: "instChart_onClick [1] (initCharts ex_data ex_app0)
       = Inr (filterTableByInstrument (ascii ''fiscal_purchase_subsidy'') (initCharts ex_data ex_app0))"
    by (simp add: ex_sortedInst)
  from ex_sortedInst click show ?thesis by simp
qed

text \<open>
  On the codes that begin with a category and hold no other marker, the label is the
  code, underscores as spaces, without its leading \<^verbatim>\<open>fiscal \<close> or \<^verbatim>\<open>tax \<close>.
\<close>

lemma instrument_label_examples:
  "instrument_label (ascii ''fiscal_purchase_subsidy'') = ascii ''purchase subsidy''
   \<and> instrument_label (ascii ''tax_exemption'') = ascii ''exemption''
   \<and> instrument_label (ascii ''land_use'') = ascii ''land use''"
  by (simp add: instrument_label_def replace_underscores_def ascii_def)

text \<open>
  C3. The claim wants the label to be the code with underscores as spaces and only a
  leading \<^verbatim>\<open>fiscal \<close> or \<^verbatim>\<open>tax \<close> stripped. \<^verbatim>\<open>replace('tax ', '')\<close> is not anchored at
  the start: it removes the first occurrence wherever it is. For a dataset whose
  \<^verbatim>\<open>global_instruments\<close> is \<^verbatim>\<open>{"local_tax_rebate": 3}\<close> the chart keeps the code
  \<^verbatim>\<open>local_tax_rebate\<close> untransformed, as claimed, but labels its bar
  \<^verbatim>\<open>local rebate\<close>, although \<^verbatim>\<open>local tax rebate\<close> begins with neither prefix.
\<close>

theorem instrument_label_unanchored:
  "rawKeys (instChart (initCharts ex_data_rebate ex_app0)) = [ascii ''local_tax_rebate'']
   \<and> labels (instChart (initCharts ex_data_rebate ex_app0)) = [ascii ''local rebate'']
   \<and> replace_underscores (ascii ''local_tax_rebate'') = ascii ''local tax rebate''
   \<and> \<not> prefix (ascii ''fiscal '') (ascii ''local tax rebate'')
   \<and> \<not> prefix (ascii ''tax '') (ascii ''local tax rebate'')
   \<and> instrument_label (ascii ''local_tax_rebate'') \<noteq> ascii ''local tax rebate''"
  by (simp add: initCharts_def sortedInst_def ex_data_rebate_def Object_entries_def
      is_array_index_def is_digit_def digits_value_def Array_sort_def by_count_desc_def
      instrument_label_def replace_underscores_def ascii_def)

section \<open>The KPIs\<close>

text \<open>
  C4, as the code has it. \<^verbatim>\<open>renderKPIs\<close> shows as total the field \<^verbatim>\<open>total_policies\<close>
  of the dataset's summary, as top instrument the summary's \<^verbatim>\<open>top_instrument\<close> with
  every underscore turned into a space, and as province count the number of keys of
  \<^verbatim>\<open>provinces\<close>, which is the number of distinct province names in it.
\<close>

theorem renderKPIs_projection:
  "kpi_total (renderKPIs data st) = total_policies (summary data)
   \<and> kpi_top_inst (renderKPIs data st) = replace_underscores (top_instrument (summary data))
   \<and> kpi_provinces (renderKPIs data st) = length (provinces data)
   \<and> (obj_ok (provinces data) \<longrightarrow>
        kpi_provinces (renderKPIs data st) = card (fst ` set (provinces data)))"
proof -
  have n: "kpi_provinces (renderKPIs data st) = length (provinces data)"
    by (simp add: renderKPIs_def Object_keys_def length_Object_entries)
  have "card (fst ` set (provinces data)) = length (provinces data)"
    if "obj_ok (provinces data)"
    using that distinct_card [of "map fst (provinces data)"] by (simp add: obj_ok_def)
  with n show ?thesis by (simp add: renderKPIs_def)
qed

theorem renderKPIs_projection_witness:
  "obj_ok (provinces ex_data)
   \<and> kpi_provinces (renderKPIs ex_data ex_app0) = card (fst ` set (provinces ex_data))
   \<and> kpi_provinces (renderKPIs ex_data ex_app0) = 2
   \<and> kpi_top_inst (renderKPIs ex_data ex_app0) = ascii ''tax exemption''"
proof -
  have ok: "obj_ok (provinces ex_data)"
    by (simp add: obj_ok_def ex_data_def ascii_def)
  have two: "length (provinces ex_data) = 2"
    by (simp add: ex_data_def)
  have top: "replace_underscores (top_instrument (summary ex_data)) = ascii ''tax exemption''"
    by (simp add: ex_data_def replace_underscores_def ascii_def)
  from renderKPIs_projection [of ex_data ex_app0] ok two top show ?thesis
    by simp
qed

text \<open>
  Where C4 as written fails: a dataset whose summary says 5 and whose collection holds 2
  records shows 5, not the size of the collection.
\<close>

theorem renderKPIs_total_counterexample:
  "kpi_total (renderKPIs ex_data ex_app0) = 5 \<and> length (policies ex_data) = 2
   \<and> kpi_total (renderKPIs ex_data ex_app0) \<noteq> int (length (policies ex_data))"
  by (simp add: renderKPIs_def ex_data_def)

section \<open>The modal\<close>

lemma allFinance_props:
  assumes "opt_obj_ok (subsidies p)" "opt_obj_ok (taxes p)" "opt_obj_ok (rd p)"
  shows "map_of (allFinance p) = own_props (subsidies p) ++ own_props (taxes p) ++ own_props (rd p)"
    and "obj_ok (allFinance p)"
proof -
  show "map_of (allFinance p) = own_props (subsidies p) ++ own_props (taxes p) ++ own_props (rd p)"
    using assms by (simp add: allFinance_def map_of_spread_into)
  have "obj_ok ([] :: entry option jsobj)" by (simp add: obj_ok_def)
  then show "obj_ok (allFinance p)"
    unfolding allFinance_def by (intro obj_ok_spread_into)
qed

lemma finance_items_alt:
  "finance_items p =
     map (\<lambda>kv. finance_item_of (fst kv) (the (snd kv)))
       (filter (\<lambda>kv. finance_shown (snd kv)) (Object_entries (allFinance p)))"
proof -
  have "concat (map (\<lambda>kv. case snd kv of None \<Rightarrow> []
            | Some v \<Rightarrow> if finance_shown (Some v) then [finance_item_of (fst kv) v] else []) xs)
        = map (\<lambda>kv. finance_item_of (fst kv) (the (snd kv)))
            (filter (\<lambda>kv. finance_shown (snd kv)) xs)" for xs :: "entry option jsobj"
    by (induction xs) (auto simp: finance_shown_def split: option.splits)
  then show ?thesis by (simp add: finance_items_def)
qed

lemma finance_shown_iff:
  "finance_shown v \<longleftrightarrow> (\<exists>e. v = Some e \<and> (truthy (entry_value e) \<or> truthy (evidence e)))"
  by (cases v) (auto simp: finance_shown_def js_or_def)

lemma entries_allFinance_iff:
  assumes "opt_obj_ok (subsidies p)" "opt_obj_ok (taxes p)" "opt_obj_ok (rd p)"
  shows "(k, v) \<in> set (Object_entries (allFinance p)) \<longleftrightarrow>
         (own_props (subsidies p) ++ own_props (taxes p) ++ own_props (rd p)) k = Some v"
proof -
  have d: "distinct (map fst (allFinance p))"
    using allFinance_props(2) [OF assms] by (simp add: obj_ok_def)
  have "(k, v) \<in> set (Object_entries (allFinance p)) \<longleftrightarrow> (k, v) \<in> set (allFinance p)"
    by (simp add: set_Object_entries)
  also have "\<dots> \<longleftrightarrow> map_of (allFinance p) k = Some v"
    using d by simp
  finally show ?thesis by (simp add: allFinance_props(1) [OF assms])
qed

lemma ex_p2_allFinance:
  "Object_entries (allFinance ex_p2) =
     [(ascii ''fiscal_grant'', Some \<lparr>entry_value = JStr (ascii ''7m''), evidence = JNull\<rparr>),
      (ascii ''fiscal_loan'', Some \<lparr>entry_value = JNull, evidence = JStr (ascii ''loans'')\<rparr>),
      (ascii ''tax_cut'', None),
      (ascii ''rd_fund'', Some \<lparr>entry_value = JNull, evidence = JNull\<rparr>)]"
  by (simp add: allFinance_def spread_into_def ex_p2_def ascii_def Object_entries_def
      is_array_index_def is_digit_def digits_value_def)

lemma ex_p2_finance_items:
  "finance_items ex_p2 =
     [\<lparr>finance_label = ascii ''fiscal grant'', finance_value = JStr (ascii ''7m''),
       finance_evidence = None\<rparr>,
      \<lparr>finance_label = ascii ''fiscal loan'', finance_value = JStr (ascii ''Yes''),
       finance_evidence = Some (JStr (ascii ''loans''))\<rparr>]"
  by (simp add: finance_items_def ex_p2_allFinance finance_shown_def finance_item_of_def
      js_or_def evidence_quote_def replace_underscores_def ascii_def)

text \<open>
  C6, as the code has it. For a record whose \<^verbatim>\<open>subsidies\<close>, \<^verbatim>\<open>taxes\<close> and \<^verbatim>\<open>rd\<close> are
  objects (or absent), write \<open>merged\<close> for their union by key in which \<^verbatim>\<open>rd\<close> overrides
  \<^verbatim>\<open>taxes\<close> and \<^verbatim>\<open>taxes\<close> overrides \<^verbatim>\<open>subsidies\<close>. The financial block of the modal
  holds exactly one item for each key of \<open>merged\<close> whose entry is not \<^verbatim>\<open>null\<close> and has a
  truthy value or a truthy evidence, and no other item. The item shows the key with
  underscores as spaces, and as value the entry's value when that is truthy and
  \<^verbatim>\<open>Yes\<close> otherwise. When the block has no item it shows its fallback text.
\<close>

theorem finance_block_shown:
  assumes "opt_obj_ok (subsidies p)" "opt_obj_ok (taxes p)" "opt_obj_ok (rd p)"
  shows "(let merged = own_props (subsidies p) ++ own_props (taxes p) ++ own_props (rd p)
          in set (finance_items p) =
               {finance_item_of k e |k e.
                  merged k = Some (Some e) \<and> (truthy (entry_value e) \<or> truthy (evidence e))}
             \<and> length (finance_items p) =
               card {k. \<exists>e. merged k = Some (Some e) \<and> (truthy (entry_value e) \<or> truthy (evidence e))})
         \<and> (\<forall>k e. finance_label (finance_item_of k e) = replace_underscores k
                \<and> finance_value (finance_item_of k e) =
                    (if truthy (entry_value e) then entry_value e else JStr (ascii ''Yes'')))
         \<and> (\<forall>policyId st. find (\<lambda>x. policy_id x = policyId) (globalPolicies st) = Some p \<longrightarrow>
               modal_subsidies (openModal policyId st) =
                 (if finance_items p = [] then Fallback (ascii ''No specific financial instruments found.'')
                  else Items (finance_items p)))"
proof -
  let ?M = "own_props (subsidies p) ++ own_props (taxes p) ++ own_props (rd p)"
  let ?es = "Object_entries (allFinance p)"
  let ?sh = "filter (\<lambda>kv. finance_shown (snd kv)) ?es"
  have mem1: "?M k = Some v" if "(k, v) \<in> set ?es" for k v
    using that by (rule iffD1 [OF entries_allFinance_iff [OF assms]])
  have mem2: "(k, v) \<in> set ?es" if "?M k = Some v" for k v
    using that by (rule iffD2 [OF entries_allFinance_iff [OF assms]])
  have "set (finance_items p) = (\<lambda>kv. finance_item_of (fst kv) (the (snd kv))) ` set ?sh"
    by (simp add: finance_items_alt)
  also have "\<dots> = {finance_item_of k e |k e.
                  ?M k = Some (Some e) \<and> (truthy (entry_value e) \<or> truthy (evidence e))}"
    (is "?L = ?R")
  proof (rule set_eqI, rule iffI)
    fix x assume "x \<in> ?L"
    then obtain k v where kv: "(k, v) \<in> set ?es" "finance_shown v"
      and x: "x = finance_item_of k (the v)" by auto
    from kv(2) obtain e where e: "v = Some e" "truthy (entry_value e) \<or> truthy (evidence e)"
      by (auto simp: finance_shown_iff)
    from kv(1) have m: "?M k = Some (Some e)" unfolding e(1) by (rule mem1)
    from x e(1) have x': "x = finance_item_of k e" by simp
    show "x \<in> ?R"
    proof (rule CollectI, intro exI conjI)
      show "x = finance_item_of k e" by (fact x')
      show "?M k = Some (Some e)" by (fact m)
      show "truthy (entry_value e) \<or> truthy (evidence e)" by (fact e(2))
    qed
  next
    fix x assume "x \<in> ?R"
    then obtain k e where x: "x = finance_item_of k e" and m: "?M k = Some (Some e)"
      and t: "truthy (entry_value e) \<or> truthy (evidence e)"
      unfolding mem_Collect_eq by (elim exE conjE)
    from m have "(k, Some e) \<in> set ?es" by (rule mem2)
    moreover from t have "finance_shown (Some e)" by (auto simp: finance_shown_iff)
    ultimately have "(k, Some e) \<in> set ?sh" by simp
    then show "x \<in> ?L" using x by force
  qed
  finally have part1: "set (finance_items p) = ?R" .
  have dk: "distinct (map fst ?es)"
    using allFinance_props(2) [OF assms] by (simp add: distinct_keys_Object_entries obj_ok_def)
  then have dsh: "distinct (map fst ?sh)" by (rule distinct_map_filter)
  have keys: "set (map fst ?sh) =
      {k. \<exists>e. ?M k = Some (Some e) \<and> (truthy (entry_value e) \<or> truthy (evidence e))}"
    (is "_ = ?K")
  proof (rule set_eqI, rule iffI)
    fix k assume "k \<in> set (map fst ?sh)"
    then obtain v where kv: "(k, v) \<in> set ?es" "finance_shown v" by auto
    from kv(2) obtain e where e: "v = Some e" "truthy (entry_value e) \<or> truthy (evidence e)"
      by (auto simp: finance_shown_iff)
    from kv(1) have m: "?M k = Some (Some e)" unfolding e(1) by (rule mem1)
    show "k \<in> ?K"
    proof (rule CollectI, intro exI conjI)
      show "?M k = Some (Some e)" by (fact m)
      show "truthy (entry_value e) \<or> truthy (evidence e)" by (fact e(2))
    qed
  next
    fix k assume "k \<in> ?K"
    then obtain e where m: "?M k = Some (Some e)"
      and t: "truthy (entry_value e) \<or> truthy (evidence e)"
      unfolding mem_Collect_eq by (elim exE conjE)
    from m have "(k, Some e) \<in> set ?es" by (rule mem2)
    moreover from t have "finance_shown (Some e)" by (auto simp: finance_shown_iff)
    ultimately have "(k, Some e) \<in> set ?sh" by simp
    then show "k \<in> set (map fst ?sh)" by force
  qed
  have "length (finance_items p) = length (map fst ?sh)"
    by (simp add: finance_items_alt)
  also have "\<dots> = card (set (map fst ?sh))"
    using distinct_card [OF dsh] by (rule sym)
  finally have part2: "length (finance_items p) = card ?K"
    by (simp only: keys)
  have part3: "finance_label (finance_item_of k e) = replace_underscores k
                \<and> finance_value (finance_item_of k e) =
                    (if truthy (entry_value e) then entry_value e else JStr (ascii ''Yes''))" for k e
    by (simp add: finance_item_of_def js_or_def)
  have part4: "modal_subsidies (openModal policyId st) =
                 (if finance_items p = [] then Fallback (ascii ''No specific financial instruments found.'')
                  else Items (finance_items p))"
    if "find (\<lambda>x. policy_id x = policyId) (globalPolicies st) = Some p" for policyId st
    using that by (simp add: openModal_def html_or_def)
  from part1 part2 part3 part4 show ?thesis
    unfolding Let_def by blast
qed

theorem finance_block_shown_witness:
  "opt_obj_ok (subsidies ex_p2) \<and> opt_obj_ok (taxes ex_p2) \<and> opt_obj_ok (rd ex_p2)
   \<and> finance_items ex_p2 =
     [\<lparr>finance_label = ascii ''fiscal grant'', finance_value = JStr (ascii ''7m''),
       finance_evidence = None\<rparr>,
      \<lparr>finance_label = ascii ''fiscal loan'', finance_value = JStr (ascii ''Yes''),
       finance_evidence = Some (JStr (ascii ''loans''))\<rparr>]
   \<and> card {k. \<exists>e. (own_props (subsidies ex_p2) ++ own_props (taxes ex_p2) ++ own_props (rd ex_p2)) k
                     = Some (Some e) \<and> (truthy (entry_value e) \<or> truthy (evidence e))} = 2"
proof -
  have ok: "opt_obj_ok (subsidies ex_p2)" "opt_obj_ok (taxes ex_p2)" "opt_obj_ok (rd ex_p2)"
    by (simp_all add: opt_obj_ok_def obj_ok_def ex_p2_def ascii_def)
  from finance_block_shown [OF ok, unfolded Let_def]
  have "length (finance_items ex_p2) =
      card {k. \<exists>e. (own_props (subsidies ex_p2) ++ own_props (taxes ex_p2) ++ own_props (rd ex_p2)) k
                     = Some (Some e) \<and> (truthy (entry_value e) \<or> truthy (evidence e))}"
    by (elim conjE)
  then show ?thesis using ok by (simp add: ex_p2_finance_items)
qed

text \<open>
  Where C6 as written fails: the only financial entry of the first record has the value
  0 and no evidence. It has a value, yet the test \<^verbatim>\<open>v.value || v.evidence\<close> is falsy, no
  item is shown for it, and the block falls back to its empty-state text.
\<close>

theorem finance_block_zero_value_counterexample:
  "subsidies ex_p1 = Some [(ascii ''fiscal_purchase_subsidy'',
                            Some \<lparr>entry_value = JNum 0, evidence = JNull\<rparr>)]
   \<and> taxes ex_p1 = None \<and> rd ex_p1 = None
   \<and> finance_items ex_p1 = []
   \<and> modal_subsidies (openModal (ascii ''x1'') (initCharts ex_data ex_app0))
       = Fallback (ascii ''No specific financial instruments found.'')"
  by (simp add: openModal_def initCharts_def ex_data_def html_or_def finance_items_def
      allFinance_def spread_into_def ex_p1_def ascii_def Object_entries_def
      is_array_index_def is_digit_def digits_value_def finance_shown_def js_or_def)

text \<open>
  C7. \<^verbatim>\<open>openModal\<close> with an id that no record of \<^verbatim>\<open>globalPolicies\<close> has returns at
  once: the page is left exactly as it was, so the overlay keeps its \<^verbatim>\<open>hidden\<close> class
  and no part of the modal is written; the function has no failing path.
\<close>

theorem openModal_unknown_id:
  assumes "policyId \<notin> policy_id ` set (globalPolicies st)"
  shows "openModal policyId st = st
         \<and> modal_overlay_hidden (openModal policyId st) = modal_overlay_hidden st"
proof -
  from assms have "find (\<lambda>x. policy_id x = policyId) (globalPolicies st) = None"
    by (auto simp: find_None_iff)
  then show ?thesis by (simp add: openModal_def)
qed

theorem openModal_unknown_id_witness:
  "openModal (ascii ''x9'') ex_app = ex_app
   \<and> modal_overlay_hidden (openModal (ascii ''x9'') ex_app) = True"
proof -
  have h: "ascii ''x9'' \<notin> policy_id ` set (globalPolicies ex_app)"
    by (simp add: ex_app_policies ex_p1_def ex_p2_def ascii_def)
  from openModal_unknown_id [OF h] show ?thesis
    by (simp add: ex_app_hidden)
qed

end
